theory Spec2Isabelle
  imports Complex_Main
begin

section \<open>JavaScript values used by the dashboard\<close>

text \<open>
  The two React components keep numbers and strings in their state and read a JSON
  document from the API. \<open>jsnumber\<close> is what \<^verbatim>\<open>Number(...)\<close> returns on the
  strings a range input produces; \<open>jsprim\<close> is a state variable that starts as the
  number given to \<^verbatim>\<open>useState\<close> and is later overwritten with the string
  \<^verbatim>\<open>e.target.value\<close>; \<open>jsval\<close> is a value that \<^verbatim>\<open>response.json()\<close> can
  resolve to, together with \<^verbatim>\<open>undefined\<close> for a missing property.
\<close>

datatype jsnumber = Num int | NaN

datatype jsprim = PNum int | PStr string

datatype jsval =
    JUndefined
  | JNull
  | JBool bool
  | JNum rat
  | JInfinity bool
  | JStr string
  | JArr "jsval list"
  | JObj "(string \<times> jsval) list"

text \<open>An exception value; only its \<^verbatim>\<open>message\<close> is ever read by the code.\<close>

datatype js_error = Error string

fun message :: "js_error \<Rightarrow> string" where
  "message (Error m) = m"

text \<open>The decimal digits and their values.\<close>

definition digits :: "(char \<times> nat) list" where
  "digits =
     [(CHR ''0'', 0), (CHR ''1'', 1), (CHR ''2'', 2), (CHR ''3'', 3), (CHR ''4'', 4),
      (CHR ''5'', 5), (CHR ''6'', 6), (CHR ''7'', 7), (CHR ''8'', 8), (CHR ''9'', 9)]"

definition digit_val :: "char \<Rightarrow> nat option" where
  "digit_val c = map_of digits c"

fun parse_digits :: "nat \<Rightarrow> string \<Rightarrow> nat option" where
  "parse_digits acc [] = Some acc"
| "parse_digits acc (c # cs) =
     (case digit_val c of
        None \<Rightarrow> None
      | Some d \<Rightarrow> parse_digits (10 * acc + d) cs)"

text \<open>
  \<^verbatim>\<open>Number(s)\<close> on a string. The model is exact on strings of decimal digits (the empty
  string converts to 0, as in JavaScript), which is what a range input with integer
  \<^verbatim>\<open>min\<close>, \<^verbatim>\<open>max\<close> and \<^verbatim>\<open>step\<close> hands to its change handler. Signs, fractions,
  exponents, radix prefixes, white space and the rounding of numerals beyond \<open>2^53\<close>
  are outside the modelled fragment (such strings read as \<open>NaN\<close>); no slider of the
  dashboard produces them, and every statement below about a string keeps it inside the
  fragment by a hypothesis.
\<close>

definition Number :: "string \<Rightarrow> jsnumber" where
  "Number s = (case parse_digits 0 s of None \<Rightarrow> NaN | Some n \<Rightarrow> Num (int n))"

text \<open>\<^verbatim>\<open>ToNumber\<close> of a state variable: a number is itself, a string goes through \<open>Number\<close>.\<close>

fun to_number :: "jsprim \<Rightarrow> jsnumber" where
  "to_number (PNum n) = Num n"
| "to_number (PStr s) = Number s"

text \<open>
  \<^verbatim>\<open>x > n\<close> with a number literal on the right: the left operand is converted with
  \<^verbatim>\<open>ToNumber\<close> (the comparison is numeric, never lexicographic, since one side is a
  number), and a comparison with \<open>NaN\<close> is false.
\<close>

definition js_gt :: "jsprim \<Rightarrow> int \<Rightarrow> bool" where
  "js_gt x n = (case to_number x of NaN \<Rightarrow> False | Num v \<Rightarrow> n < v)"

text \<open>
  The decimal numeral of a natural number, the string a range input with integer
  \<^verbatim>\<open>min\<close>, \<^verbatim>\<open>max\<close> and \<^verbatim>\<open>step\<close> holds at that position.
\<close>

definition digit_char :: "nat \<Rightarrow> char" where
  "digit_char d = ''0123456789'' ! d"

function decimal :: "nat \<Rightarrow> string" where
  "decimal n =
     (if n < 10 then [digit_char n] else decimal (n div 10) @ [digit_char (n mod 10)])"
  by pat_completeness auto
termination
  by (relation "measure id") auto

declare decimal.simps [simp del]

text \<open>
  The values of a slider-backed state variable on which the model of \<^verbatim>\<open>ToNumber\<close> is
  exact, with the integer each of them denotes: a number, or the decimal numeral of a
  natural number.
\<close>

fun reads_as :: "jsprim \<Rightarrow> int \<Rightarrow> bool" where
  "reads_as (PNum m) n = (m = n)"
| "reads_as (PStr v) n = (0 \<le> n \<and> v = decimal (nat n))"

text \<open>Truthiness, as \<^verbatim>\<open>if (v)\<close> and \<^verbatim>\<open>v || w\<close> test it.\<close>

fun truthy :: "jsval \<Rightarrow> bool" where
  "truthy JUndefined = False"
| "truthy JNull = False"
| "truthy (JBool b) = b"
| "truthy (JNum r) = (r \<noteq> 0)"
| "truthy (JInfinity _) = True"
| "truthy (JStr s) = (s \<noteq> [])"
| "truthy (JArr _) = True"
| "truthy (JObj _) = True"

text \<open>
  Reading a property \<^verbatim>\<open>v.k\<close>. On \<^verbatim>\<open>null\<close> and \<^verbatim>\<open>undefined\<close> the read throws a
  TypeError (the message is V8's). On an object it is the own property or
  \<^verbatim>\<open>undefined\<close>. The code reads only \<^verbatim>\<open>success\<close>, \<^verbatim>\<open>data\<close> and \<^verbatim>\<open>error\<close>, none
  of which is a built-in property of a boolean, a number, a string or an array, so on
  those the read is \<^verbatim>\<open>undefined\<close>.
\<close>

fun get_prop :: "jsval \<Rightarrow> string \<Rightarrow> js_error + jsval" where
  "get_prop (JObj kvs) k = (case map_of kvs k of None \<Rightarrow> Inr JUndefined | Some v \<Rightarrow> Inr v)"
| "get_prop JUndefined k =
     Inl (Error (''Cannot read properties of undefined (reading '' @ [CHR 0x27] @ k @ [CHR 0x27] @ '')''))"
| "get_prop JNull k =
     Inl (Error (''Cannot read properties of null (reading '' @ [CHR 0x27] @ k @ [CHR 0x27] @ '')''))"
| "get_prop _ k = Inr JUndefined"

section \<open>The App component\<close>

text \<open>
  \<^verbatim>\<open>App\<close> holds three state variables, initialised with numbers. Each change handler
  stores \<^verbatim>\<open>e.target.value\<close> as it is, a string.
\<close>

record app_state =
  app_qubits :: jsprim
  attackers :: jsprim
  intercept :: jsprim

definition app_init :: app_state where
  "app_init = \<lparr>app_qubits = PNum 10, attackers = PNum 2, intercept = PNum 50\<rparr>"

datatype app_event = QubitsInput string | AttackersInput string | InterceptInput string

fun app_step :: "app_state \<Rightarrow> app_event \<Rightarrow> app_state" where
  "app_step s (QubitsInput v) = s\<lparr>app_qubits := PStr v\<rparr>"
| "app_step s (AttackersInput v) = s\<lparr>attackers := PStr v\<rparr>"
| "app_step s (InterceptInput v) = s\<lparr>intercept := PStr v\<rparr>"

definition linkColor :: "app_state \<Rightarrow> string" where
  "linkColor s = (if js_gt (intercept s) 40 then ''stroke-red-500'' else ''stroke-green-400'')"

definition eveColor :: "app_state \<Rightarrow> string" where
  "eveColor s = (if js_gt (intercept s) 40 then ''bg-red-500'' else ''bg-yellow-400'')"

text \<open>The \<^verbatim>\<open>className\<close> of the Alice-to-Bob line and of the Eve badge, as rendered.\<close>

definition link_className :: "app_state \<Rightarrow> string" where
  "link_className s = linkColor s"

definition eve_className :: "app_state \<Rightarrow> string" where
  "eve_className s =
     ''w-10 h-10 '' @ eveColor s @
     '' rounded-full border-2 border-white shadow-lg flex items-center justify-center font-bold''"

text \<open>A \<^verbatim>\<open>className\<close> is a list of classes separated by spaces.\<close>

fun split_spaces :: "string \<Rightarrow> string \<Rightarrow> string list" where
  "split_spaces cur [] = (if cur = [] then [] else [cur])"
| "split_spaces cur (c # cs) =
     (if c = CHR '' ''
      then (if cur = [] then split_spaces [] cs else cur # split_spaces [] cs)
      else split_spaces (cur @ [c]) cs)"

definition has_class :: "string \<Rightarrow> string \<Rightarrow> bool" where
  "has_class c className = (c \<in> set (split_spaces [] className))"

section \<open>The RandomScenarios component\<close>

text \<open>
  The component's five state variables. \<open>results\<close> and \<open>error\<close> start as
  \<^verbatim>\<open>null\<close>; \<open>qubits\<close> and \<open>numScenarios\<close> are numbers, since both change handlers
  store \<^verbatim>\<open>Number(e.target.value)\<close>.
\<close>

record rs_state =
  loading :: bool
  qubits :: jsnumber
  numScenarios :: jsnumber
  results :: jsval
  error :: jsval

definition rs_init :: rs_state where
  "rs_init = \<lparr>loading = False, qubits = Num 10, numScenarios = Num 5,
              results = JNull, error = JNull\<rparr>"

text \<open>Two states an earlier run can have left: one showing an error, one showing results.\<close>

definition after_error :: rs_state where
  "after_error = \<lparr>loading = False, qubits = Num 10, numScenarios = Num 5, results = JNull,
                  error = JStr ''Simulation failed''\<rparr>"

definition after_results :: rs_state where
  "after_results = \<lparr>loading = False, qubits = Num 10, numScenarios = Num 5,
                    results = JObj [(''num_scenarios'', JNum 5)], error = JNull\<rparr>"

text \<open>The object that \<^verbatim>\<open>runSimulation\<close> serialises into the body of its POST request.\<close>

record request =
  num_qubits :: jsnumber
  num_scenarios :: jsnumber

definition request_of :: "rs_state \<Rightarrow> request" where
  "request_of s = \<lparr>num_qubits = qubits s, num_scenarios = numScenarios s\<rparr>"

text \<open>
  How the awaited part of \<^verbatim>\<open>runSimulation\<close> ends: \<^verbatim>\<open>fetch\<close> rejects,
  \<^verbatim>\<open>response.json()\<close> rejects, or the body parses to a value.
\<close>

datatype fetch_outcome = FetchRejects js_error | JsonRejects js_error | Resolves jsval

text \<open>
  The three statements before \<^verbatim>\<open>try\<close>: \<^verbatim>\<open>setLoading(true); setError(null);
  setResults(null)\<close>.
\<close>

definition runSimulation_begin :: "rs_state \<Rightarrow> rs_state" where
  "runSimulation_begin s = ((s\<lparr>loading := True\<rparr>)\<lparr>error := JNull\<rparr>)\<lparr>results := JNull\<rparr>"

text \<open>
  The \<^verbatim>\<open>try\<close> block: \<open>Inl\<close> is an exception on its way to \<^verbatim>\<open>catch\<close>, \<open>Inr\<close> the
  state after the block ran to its end. \<^verbatim>\<open>data.error || "Simulation failed"\<close> is
  \<^verbatim>\<open>data.error\<close> when that is truthy.
\<close>

fun try_block :: "rs_state \<Rightarrow> fetch_outcome \<Rightarrow> js_error + rs_state" where
  "try_block s (FetchRejects err) = Inl err"
| "try_block s (JsonRejects err) = Inl err"
| "try_block s (Resolves data) =
     (case get_prop data ''success'' of
        Inl err \<Rightarrow> Inl err
      | Inr success \<Rightarrow>
          if truthy success
          then (case get_prop data ''data'' of
                  Inl err \<Rightarrow> Inl err
                | Inr d \<Rightarrow> Inr (s\<lparr>results := d\<rparr>))
          else (case get_prop data ''error'' of
                  Inl err \<Rightarrow> Inl err
                | Inr e \<Rightarrow> Inr (s\<lparr>error := (if truthy e then e else JStr ''Simulation failed'')\<rparr>)))"

text \<open>\<^verbatim>\<open>try\<close>, \<^verbatim>\<open>catch\<close> and \<^verbatim>\<open>finally\<close>, once the awaited promise has settled.\<close>

definition runSimulation_settle :: "rs_state \<Rightarrow> fetch_outcome \<Rightarrow> rs_state" where
  "runSimulation_settle s out =
     (let s' = (case try_block s out of
                  Inr t \<Rightarrow> t
                | Inl err \<Rightarrow> s\<lparr>error := JStr (''Failed to connect to API: '' @ message err)\<rparr>)
      in s'\<lparr>loading := False\<rparr>)"

text \<open>One execution of \<^verbatim>\<open>runSimulation\<close> from its first statement to the end of \<^verbatim>\<open>finally\<close>.\<close>

definition runSimulation :: "rs_state \<Rightarrow> fetch_outcome \<Rightarrow> rs_state" where
  "runSimulation s out = runSimulation_settle (runSimulation_begin s) out"

text \<open>
  The component as a state machine. Both sliders and the button are rendered with
  \<^verbatim>\<open>disabled={loading}\<close>, so they deliver no event while a request is pending.
  \<open>Settled\<close> is the pending promise settling.
\<close>

datatype rs_event =
    QubitsChange string
  | ScenariosChange string
  | RunClick
  | Settled fetch_outcome

fun rs_step :: "rs_state \<Rightarrow> rs_event \<Rightarrow> rs_state" where
  "rs_step s (QubitsChange v) = (if loading s then s else s\<lparr>qubits := Number v\<rparr>)"
| "rs_step s (ScenariosChange v) = (if loading s then s else s\<lparr>numScenarios := Number v\<rparr>)"
| "rs_step s RunClick = (if loading s then s else runSimulation_begin s)"
| "rs_step s (Settled out) = (if loading s then runSimulation_settle s out else s)"

fun rs_run :: "rs_state \<Rightarrow> rs_event list \<Rightarrow> rs_state" where
  "rs_run s [] = s"
| "rs_run s (ev # evs) = rs_run (rs_step s ev) evs"

text \<open>The requests issued along a run, oldest first: one per click that is delivered.\<close>

fun rs_requests :: "rs_state \<Rightarrow> rs_event list \<Rightarrow> request list" where
  "rs_requests s [] = []"
| "rs_requests s (RunClick # evs) =
     (if loading s then rs_requests s evs
      else request_of s # rs_requests (runSimulation_begin s) evs)"
| "rs_requests s (ev # evs) = rs_requests (rs_step s ev) evs"

text \<open>
  A range input, by its \<^verbatim>\<open>min\<close> and \<^verbatim>\<open>max\<close> attributes (the \<^verbatim>\<open>step\<close> is 1 on
  every slider of the dashboard, written out or by default).
\<close>

record range_input =
  min_attr :: int
  max_attr :: int

definition qubits_slider :: range_input where
  "qubits_slider = \<lparr>min_attr = 1, max_attr = 20\<rparr>"

definition scenarios_slider :: range_input where
  "scenarios_slider = \<lparr>min_attr = 1, max_attr = 10\<rparr>"

definition intercept_slider :: range_input where
  "intercept_slider = \<lparr>min_attr = 0, max_attr = 100\<rparr>"

text \<open>
  The value a range input hands to its change handler: the browser keeps it a decimal
  numeral between the element's \<^verbatim>\<open>min\<close> and \<^verbatim>\<open>max\<close>. This is the only fact about
  the browser the development relies on; the handlers themselves do no clamping.
\<close>

definition range_value :: "range_input \<Rightarrow> string \<Rightarrow> bool" where
  "range_value sl v =
     (v \<noteq> [] \<and>
      (case parse_digits 0 v of
         None \<Rightarrow> False
       | Some n \<Rightarrow> min_attr sl \<le> int n \<and> int n \<le> max_attr sl))"

fun from_sliders :: "rs_event \<Rightarrow> bool" where
  "from_sliders (QubitsChange v) = range_value qubits_slider v"
| "from_sliders (ScenariosChange v) = range_value scenarios_slider v"
| "from_sliders _ = True"

definition in_range :: "int \<Rightarrow> int \<Rightarrow> jsnumber \<Rightarrow> bool" where
  "in_range lo hi x = (case x of NaN \<Rightarrow> False | Num n \<Rightarrow> lo \<le> n \<and> n \<le> hi)"

definition request_in_bounds :: "request \<Rightarrow> bool" where
  "request_in_bounds r = (in_range 1 20 (num_qubits r) \<and> in_range 1 10 (num_scenarios r))"

definition sliders_in_bounds :: "rs_state \<Rightarrow> bool" where
  "sliders_in_bounds s = (in_range 1 20 (qubits s) \<and> in_range 1 10 (numScenarios s))"

text \<open>
  The App component as a state machine. Its qubits slider has the bounds of
  \<open>qubits_slider\<close>, its intercept slider those of \<open>intercept_slider\<close>; the
  attackers field is a number input, which accepts any text.
\<close>

fun app_from_sliders :: "app_event \<Rightarrow> bool" where
  "app_from_sliders (QubitsInput v) = range_value qubits_slider v"
| "app_from_sliders (InterceptInput v) = range_value intercept_slider v"
| "app_from_sliders (AttackersInput v) = True"

fun app_run :: "app_state \<Rightarrow> app_event list \<Rightarrow> app_state" where
  "app_run s [] = s"
| "app_run s (ev # evs) = app_run (app_step s ev) evs"

definition app_in_bounds :: "app_state \<Rightarrow> bool" where
  "app_in_bounds s =
     (in_range 1 20 (to_number (app_qubits s)) \<and> in_range 0 100 (to_number (intercept s)))"

section \<open>The simulation core\<close>

text \<open>
  The dashboard is a client of a simulation core (the README lists \<^verbatim>\<open>bb84_core.py\<close>,
  \<^verbatim>\<open>network.py\<close>, \<^verbatim>\<open>alice.py\<close>, \<^verbatim>\<open>bob.py\<close>, \<^verbatim>\<open>eve.py\<close>), whose source is not
  among the files of the repository at hand. The definitions of this section are written
  from sections 3, 4.1, 4.2 and 4.3 of the specification; each says so.
\<close>

text \<open>Modelled from the spec: the two encoding bases of a qubit (section 3); the core's
  source is missing.\<close>

datatype basis = RECTILINEAR | DIAGONAL

text \<open>Modelled from the spec: a prepared qubit, its classical bit (\<open>False\<close> is 0,
  \<open>True\<close> is 1) and the basis it was encoded in (section 3); the core's source is
  missing.\<close>

record Qubit =
  qbit :: bool
  basis :: basis

text \<open>Modelled from the spec: the result of measuring a qubit (section 3); the core's
  source is missing.\<close>

record MeasurementOutcome =
  mbit :: bool
  basisUsed :: basis

text \<open>Modelled from the spec: a named interceptor and the fraction of qubits it
  intercepts (section 3); the core's source is missing.\<close>

record AttackerProfile =
  name :: string
  interceptProbability :: rat

text \<open>Modelled from the spec: the injectable random source of sections 4.1 and 9, which
  the spec leaves abstract. Here it is a fixed infinite sequence of numbers in \<open>[0, 1)\<close>
  and a cursor; every draw reads the number under the cursor and moves it on.\<close>

record random_source =
  draws :: "nat \<Rightarrow> rat"
  cursor :: nat

text \<open>Modelled from the spec: one draw from the random source (section 9).\<close>

definition next_uniform :: "random_source \<Rightarrow> rat \<times> random_source" where
  "next_uniform rs = (draws rs (cursor rs), rs\<lparr>cursor := cursor rs + 1\<rparr>)"

text \<open>Modelled from the spec: a bit drawn from the random source, either value for half
  of the interval (section 4.1).\<close>

definition draw_bit :: "random_source \<Rightarrow> bool \<times> random_source" where
  "draw_bit rs = (case next_uniform rs of (u, rs') \<Rightarrow> (1 / 2 \<le> u, rs'))"

text \<open>Modelled from the spec: a basis drawn from the random source, either basis for
  half of the interval (sections 4.2 and 4.3).\<close>

definition draw_basis :: "random_source \<Rightarrow> basis \<times> random_source" where
  "draw_basis rs =
     (case next_uniform rs of (u, rs') \<Rightarrow> (if u < 1 / 2 then RECTILINEAR else DIAGONAL, rs'))"

text \<open>Modelled from the spec: \<^verbatim>\<open>prepare(bit, basis)\<close> of QubitChannel (section 4.1).\<close>

definition prepare :: "bool \<Rightarrow> basis \<Rightarrow> Qubit" where
  "prepare b bs = \<lparr>qbit = b, basis = bs\<rparr>"

text \<open>Modelled from the spec: \<^verbatim>\<open>measure(qubit, basis)\<close> of QubitChannel (section 4.1):
  the qubit's bit when the bases agree, a fresh draw when they differ.\<close>

definition measure_qubit ::
  "Qubit \<Rightarrow> basis \<Rightarrow> random_source \<Rightarrow> MeasurementOutcome \<times> random_source" where
  "measure_qubit q bs rs =
     (if bs = basis q then (\<lparr>mbit = qbit q, basisUsed = bs\<rparr>, rs)
      else (case draw_bit rs of (b, rs') \<Rightarrow> (\<lparr>mbit = b, basisUsed = bs\<rparr>, rs')))"

text \<open>Modelled from the spec: \<^verbatim>\<open>shouldIntercept\<close> of AttackModel (section 4.3), a
  Bernoulli trial with the attacker's probability.\<close>

definition shouldIntercept :: "AttackerProfile \<Rightarrow> random_source \<Rightarrow> bool \<times> random_source" where
  "shouldIntercept a rs =
     (case next_uniform rs of (u, rs') \<Rightarrow> (u < interceptProbability a, rs'))"

text \<open>Modelled from the spec: \<^verbatim>\<open>chooseBasis\<close> of AttackModel (section 4.3).\<close>

definition chooseBasis :: "random_source \<Rightarrow> basis \<times> random_source" where
  "chooseBasis rs = draw_basis rs"

text \<open>Modelled from the spec: \<^verbatim>\<open>intercept(qubit, attacker)\<close> of QubitChannel (section
  4.1), intercept and resend: the attacker measures in a random basis and prepares a new
  qubit from what it measured.\<close>

definition intercept_resend ::
  "Qubit \<Rightarrow> AttackerProfile \<Rightarrow> random_source \<Rightarrow> Qubit \<times> random_source" where
  "intercept_resend q a rs =
     (case chooseBasis rs of (bs, rs1) \<Rightarrow>
        (case measure_qubit q bs rs1 of (m, rs2) \<Rightarrow> (prepare (mbit m) (basisUsed m), rs2)))"

text \<open>Modelled from the spec: step 2 of BB84Link (section 4.2) for one qubit: it passes
  the attackers in the order of the chain, each deciding independently whether to
  intercept (the default of section 9).\<close>

fun through_chain ::
  "Qubit \<Rightarrow> AttackerProfile list \<Rightarrow> random_source \<Rightarrow> Qubit \<times> random_source" where
  "through_chain q [] rs = (q, rs)"
| "through_chain q (a # as) rs =
     (case shouldIntercept a rs of (go, rs1) \<Rightarrow>
        if go then (case intercept_resend q a rs1 of (q', rs2) \<Rightarrow> through_chain q' as rs2)
        else through_chain q as rs1)"

text \<open>Modelled from the spec: step 1 of BB84Link (section 4.2): the sender draws a bit
  and a basis for each of the N qubits.\<close>

fun generate :: "nat \<Rightarrow> random_source \<Rightarrow> Qubit list \<times> random_source" where
  "generate 0 rs = ([], rs)"
| "generate (Suc n) rs =
     (case draw_bit rs of (b, rs1) \<Rightarrow>
        (case draw_basis rs1 of (bs, rs2) \<Rightarrow>
           (case generate n rs2 of (qs, rs3) \<Rightarrow> (prepare b bs # qs, rs3))))"

text \<open>Modelled from the spec: step 2 of BB84Link (section 4.2) for all qubits.\<close>

fun transmit ::
  "Qubit list \<Rightarrow> AttackerProfile list \<Rightarrow> random_source \<Rightarrow> Qubit list \<times> random_source" where
  "transmit [] chain rs = ([], rs)"
| "transmit (q # qs) chain rs =
     (case through_chain q chain rs of (q', rs1) \<Rightarrow>
        (case transmit qs chain rs1 of (qs', rs2) \<Rightarrow> (q' # qs', rs2)))"

text \<open>Modelled from the spec: step 3 of BB84Link (section 4.2): the receiver draws a
  basis per qubit and measures.\<close>

fun receive :: "Qubit list \<Rightarrow> random_source \<Rightarrow> MeasurementOutcome list \<times> random_source" where
  "receive [] rs = ([], rs)"
| "receive (q # qs) rs =
     (case draw_basis rs of (bs, rs1) \<Rightarrow>
        (case measure_qubit q bs rs1 of (m, rs2) \<Rightarrow>
           (case receive qs rs2 of (ms, rs3) \<Rightarrow> (m # ms, rs3))))"

text \<open>Modelled from the spec: steps 1 to 3 of BB84Link together: the qubits as the
  sender prepared them, and what the receiver measured.\<close>

definition exchange ::
  "nat \<Rightarrow> AttackerProfile list \<Rightarrow> random_source \<Rightarrow> Qubit list \<times> MeasurementOutcome list" where
  "exchange n chain rs =
     (case generate n rs of (sent, rs1) \<Rightarrow>
        (case transmit sent chain rs1 of (arrived, rs2) \<Rightarrow>
           (case receive arrived rs2 of (outcomes, rs3) \<Rightarrow> (sent, outcomes))))"

text \<open>Modelled from the spec: step 4 of BB84Link (section 4.2), sifting: one pass over
  the positions that keeps the sender's bit and the receiver's bit where the receiver's
  basis is the basis the sender prepared.\<close>

fun sift :: "Qubit list \<Rightarrow> MeasurementOutcome list \<Rightarrow> bool list \<times> bool list" where
  "sift (q # qs) (m # ms) =
     (case sift qs ms of (sk, rk) \<Rightarrow>
        if basisUsed m = basis q then (qbit q # sk, mbit m # rk) else (sk, rk))"
| "sift _ _ = ([], [])"

text \<open>Modelled from the spec: the number of positions at which the sifted keys differ
  (step 5 of BB84Link).\<close>

fun mismatches :: "bool list \<Rightarrow> bool list \<Rightarrow> nat" where
  "mismatches (a # as) (b # bs) = (if a \<noteq> b then 1 else 0) + mismatches as bs"
| "mismatches _ _ = 0"

text \<open>Modelled from the spec: the security threshold, 11.0 percent (section 3).\<close>

definition SECURITY_THRESHOLD :: rat where
  "SECURITY_THRESHOLD = 11"

text \<open>Modelled from the spec: step 5 of BB84Link: the error rate in percent, and 0 for
  an empty sifted key.\<close>

definition qber :: "bool list \<Rightarrow> bool list \<Rightarrow> rat" where
  "qber sk rk =
     (if length sk = 0 then 0
      else 100 * rat_of_nat (mismatches sk rk) / rat_of_nat (length sk))"

text \<open>Modelled from the spec: LinkResult (section 3), with the flag of section 7 for an
  empty sifted key.\<close>

record LinkResult =
  senderKey :: "bool list"
  receiverKey :: "bool list"
  qberPercent :: rat
  secure :: bool
  indeterminate :: bool
  attackersInvolved :: "string list"

text \<open>Modelled from the spec: ConfigurationError (section 7), naming the parameter.\<close>

datatype core_error = ConfigurationError string

text \<open>Modelled from the spec: an intercept probability lies in \<open>[0, 1]\<close> (section 3).\<close>

definition valid_probability :: "AttackerProfile \<Rightarrow> bool" where
  "valid_probability a = (0 \<le> interceptProbability a \<and> interceptProbability a \<le> 1)"

text \<open>Modelled from the spec: \<^verbatim>\<open>runSingleLink(numQubits, attackerChain)\<close> (sections 4.2
  and 6), one BB84Link run on a given random source: the configuration checks of section
  7, then steps 1 to 6.\<close>

definition runSingleLink ::
  "int \<Rightarrow> AttackerProfile list \<Rightarrow> random_source \<Rightarrow> core_error + LinkResult" where
  "runSingleLink N chain rs =
     (if N \<le> 0 then Inl (ConfigurationError ''numQubits'')
      else if \<not> list_all valid_probability chain
      then Inl (ConfigurationError ''interceptProbability'')
      else
        (case exchange (nat N) chain rs of (sent, outcomes) \<Rightarrow>
           (case sift sent outcomes of (sk, rk) \<Rightarrow>
              Inr \<lparr>senderKey = sk, receiverKey = rk, qberPercent = qber sk rk,
                   secure = (qber sk rk < SECURITY_THRESHOLD),
                   indeterminate = (length sk = 0),
                   attackersInvolved = map name chain\<rparr>)))"

text \<open>Modelled from the spec: two measurements in a row on one random source, the second
  on the source as the first left it (sections 4.1 and 4.2); the outcome bits of both.\<close>

definition measure_twice ::
  "Qubit \<Rightarrow> basis \<Rightarrow> Qubit \<Rightarrow> basis \<Rightarrow> random_source \<Rightarrow> bool \<times> bool" where
  "measure_twice q bs q' bs' rs =
     (case measure_qubit q bs rs of (m1, rs1) \<Rightarrow>
        (case measure_qubit q' bs' rs1 of (m2, rs2) \<Rightarrow> (mbit m1, mbit m2)))"

text \<open>
  For counting outcomes over equally likely draws: the random source with the number at
  one position replaced, and the \<open>2 * m\<close> equally spaced numbers \<open>0, 1 / (2 * m), ...\<close>
  of \<open>[0, 1)\<close>.
\<close>

definition with_draw :: "random_source \<Rightarrow> nat \<Rightarrow> rat \<Rightarrow> random_source" where
  "with_draw rs i u = rs\<lparr>draws := (draws rs)(i := u)\<rparr>"

definition grid :: "nat \<Rightarrow> nat \<Rightarrow> rat" where
  "grid m k = rat_of_nat k / rat_of_nat (2 * m)"

text \<open>The positions, in increasing order, at which the receiver measured in the basis
  the sender prepared.\<close>

definition matching_positions :: "Qubit list \<Rightarrow> MeasurementOutcome list \<Rightarrow> nat list" where
  "matching_positions sent outcomes =
     filter (\<lambda>i. basisUsed (outcomes ! i) = basis (sent ! i)) [0..<length sent]"

text \<open>A random source and two attackers for running the model on concrete inputs.\<close>

definition demo_source :: random_source where
  "demo_source =
     \<lparr>draws = (\<lambda>i. if i mod 3 = 0 then 1 / 4 else if i mod 3 = 1 then 3 / 4 else 1 / 2),
      cursor = 0\<rparr>"

definition demo_chain :: "AttackerProfile list" where
  "demo_chain =
     [\<lparr>name = ''Eve'', interceptProbability = 1 / 2\<rparr>,
      \<lparr>name = ''Mallory'', interceptProbability = 1\<rparr>]"

section \<open>The colour threshold of the App component\<close>

lemma has_class_link_red: "has_class ''stroke-red-500'' (link_className s) = js_gt (intercept s) 40"
  by (simp add: has_class_def link_className_def linkColor_def)

lemma has_class_link_green:
  "has_class ''stroke-green-400'' (link_className s) = (\<not> js_gt (intercept s) 40)"
  by (simp add: has_class_def link_className_def linkColor_def)

lemma has_class_eve_red: "has_class ''bg-red-500'' (eve_className s) = js_gt (intercept s) 40"
  by (simp add: has_class_def eve_className_def eveColor_def)

lemma has_class_eve_yellow:
  "has_class ''bg-yellow-400'' (eve_className s) = (\<not> js_gt (intercept s) 40)"
  by (simp add: has_class_def eve_className_def eveColor_def)

text \<open>Reading a decimal numeral back gives the number.\<close>

lemma digit_val_digit_char: "d < 10 \<Longrightarrow> digit_val (digit_char d) = Some d"
proof -
  assume "d < 10"
  then have "d \<in> {0, 1, 2, 3, 4, 5, 6, 7, 8, 9}" by auto
  then show ?thesis
    by (auto simp: digit_val_def digits_def digit_char_def)
qed

lemma parse_digits_snoc:
  "parse_digits acc (xs @ [c]) =
     (case parse_digits acc xs of
        None \<Rightarrow> None
      | Some m \<Rightarrow> (case digit_val c of None \<Rightarrow> None | Some d \<Rightarrow> Some (10 * m + d)))"
  by (induction xs arbitrary: acc) (auto split: option.splits)

lemma parse_decimal: "parse_digits 0 (decimal n) = Some n"
proof (induction n rule: decimal.induct)
  case (1 n)
  show ?case
  proof (cases "n < 10")
    case True
    then show ?thesis by (simp add: decimal.simps [of n] digit_val_digit_char)
  next
    case False
    with 1 have "parse_digits 0 (decimal (n div 10)) = Some (n div 10)" by simp
    then show ?thesis using False
      by (simp add: decimal.simps [of n] parse_digits_snoc digit_val_digit_char)
  qed
qed

lemma Number_decimal: "Number (decimal n) = Num (int n)"
  by (simp add: Number_def parse_decimal)

lemma js_gt_reads_as: "reads_as x n \<Longrightarrow> js_gt x k = (k < n)"
  by (cases x) (auto simp: js_gt_def Number_decimal)

lemma decimal_examples:
  "decimal 5 = ''5''" "decimal 40 = ''40''" "decimal 41 = ''41''" "decimal 100 = ''100''"
  by (simp_all add: decimal.simps digit_char_def)

text \<open>
  C10. Let \<open>intercept\<close> hold the integer \<open>n\<close>, as a number or as the decimal numeral the
  slider stores. Then the Alice-to-Bob line carries the class \<^verbatim>\<open>stroke-red-500\<close>
  exactly when \<open>n > 40\<close> and \<^verbatim>\<open>stroke-green-400\<close> exactly when \<open>n \<le> 40\<close>; the Eve
  badge carries \<^verbatim>\<open>bg-red-500\<close> exactly when \<open>n > 40\<close> and \<^verbatim>\<open>bg-yellow-400\<close> exactly
  when \<open>n \<le> 40\<close>; so the line is red exactly when the badge is. The two
  \<^verbatim>\<open>className\<close> strings are given in full.
\<close>

theorem link_and_eve_colour_threshold:
  assumes "reads_as (intercept s) n"
  shows "has_class ''stroke-red-500'' (link_className s) = (40 < n) \<and>
         has_class ''stroke-green-400'' (link_className s) = (n \<le> 40) \<and>
         has_class ''bg-red-500'' (eve_className s) = (40 < n) \<and>
         has_class ''bg-yellow-400'' (eve_className s) = (n \<le> 40) \<and>
         has_class ''stroke-red-500'' (link_className s) =
           has_class ''bg-red-500'' (eve_className s) \<and>
         link_className s = (if 40 < n then ''stroke-red-500'' else ''stroke-green-400'') \<and>
         eve_className s =
           ''w-10 h-10 '' @ (if 40 < n then ''bg-red-500'' else ''bg-yellow-400'') @
           '' rounded-full border-2 border-white shadow-lg flex items-center justify-center font-bold''"
proof -
  have gt: "js_gt (intercept s) 40 = (40 < n)"
    using js_gt_reads_as [OF assms, of 40] .
  have c1: "has_class ''stroke-red-500'' (link_className s) = (40 < n)"
    by (simp only: has_class_link_red gt)
  have c2: "has_class ''stroke-green-400'' (link_className s) = (n \<le> 40)"
    by (simp only: has_class_link_green gt not_less)
  have c3: "has_class ''bg-red-500'' (eve_className s) = (40 < n)"
    by (simp only: has_class_eve_red gt)
  have c4: "has_class ''bg-yellow-400'' (eve_className s) = (n \<le> 40)"
    by (simp only: has_class_eve_yellow gt not_less)
  have c5: "has_class ''stroke-red-500'' (link_className s) =
      has_class ''bg-red-500'' (eve_className s)"
    by (simp only: c1 c3)
  have c6: "link_className s = (if 40 < n then ''stroke-red-500'' else ''stroke-green-400'')"
    by (simp only: link_className_def linkColor_def gt)
  have c7: "eve_className s =
      ''w-10 h-10 '' @ (if 40 < n then ''bg-red-500'' else ''bg-yellow-400'') @
      '' rounded-full border-2 border-white shadow-lg flex items-center justify-center font-bold''"
    by (simp only: eve_className_def eveColor_def gt)
  show ?thesis by (intro conjI c1 c2 c3 c4 c5 c6 c7)
qed

text \<open>
  At the initial 50 both are red; at the slider values 40 and 5 the line is green and the
  badge yellow (5 against 40 is compared as numbers, not as strings); at 41 both are red.
\<close>

theorem link_and_eve_colour_threshold_witness:
  "has_class ''stroke-red-500'' (link_className app_init) \<and>
   has_class ''bg-red-500'' (eve_className app_init) \<and>
   has_class ''stroke-green-400'' (link_className (app_step app_init (InterceptInput ''40''))) \<and>
   has_class ''bg-yellow-400'' (eve_className (app_step app_init (InterceptInput ''40''))) \<and>
   has_class ''stroke-red-500'' (link_className (app_step app_init (InterceptInput ''41''))) \<and>
   has_class ''bg-red-500'' (eve_className (app_step app_init (InterceptInput ''41''))) \<and>
   has_class ''stroke-green-400'' (link_className (app_step app_init (InterceptInput ''5''))) \<and>
   has_class ''bg-yellow-400'' (eve_className (app_step app_init (InterceptInput ''5'')))"
proof -
  have r50: "reads_as (intercept app_init) 50"
    by (simp add: app_init_def)
  have r40: "reads_as (intercept (app_step app_init (InterceptInput ''40''))) 40"
    by (simp add: decimal_examples)
  have r41: "reads_as (intercept (app_step app_init (InterceptInput ''41''))) 41"
    by (simp add: decimal_examples)
  have r5: "reads_as (intercept (app_step app_init (InterceptInput ''5''))) 5"
    by (simp add: decimal_examples)
  from link_and_eve_colour_threshold [OF r50] link_and_eve_colour_threshold [OF r40]
    link_and_eve_colour_threshold [OF r41] link_and_eve_colour_threshold [OF r5]
  show ?thesis by (simp add: has_class_def)
qed

section \<open>One execution of runSimulation\<close>

lemma truthy_not_null: "truthy v \<Longrightarrow> v \<noteq> JNull"
  by (cases v) simp_all

lemma try_block_keeps:
  "try_block s out = Inr t \<Longrightarrow>
     loading t = loading s \<and> qubits t = qubits s \<and> numScenarios t = numScenarios s"
  by (cases out) (auto split: sum.splits if_splits)

lemma try_block_sets_one:
  "try_block s out = Inr t \<Longrightarrow> results t = results s \<or> error t = error s"
  by (cases out) (auto split: sum.splits if_splits)

lemma settle_cases:
  "runSimulation_settle s out =
    (case try_block s out of
       Inr t \<Rightarrow> t\<lparr>loading := False\<rparr>
     | Inl err \<Rightarrow> s\<lparr>error := JStr (''Failed to connect to API: '' @ message err), loading := False\<rparr>)"
  by (simp add: runSimulation_settle_def split: sum.splits)

lemma begin_fields:
  "loading (runSimulation_begin s) = True" "results (runSimulation_begin s) = JNull"
  "error (runSimulation_begin s) = JNull" "qubits (runSimulation_begin s) = qubits s"
  "numScenarios (runSimulation_begin s) = numScenarios s"
  by (simp_all add: runSimulation_begin_def)

lemma runSimulation_loading: "loading (runSimulation s out) = False"
  by (simp add: runSimulation_def settle_cases split: sum.splits)

lemma runSimulation_at_most_one:
  "results (runSimulation s out) = JNull \<or> error (runSimulation s out) = JNull"
proof (cases "try_block (runSimulation_begin s) out")
  case (Inl err)
  then show ?thesis by (simp add: runSimulation_def settle_cases begin_fields)
next
  case (Inr t)
  from try_block_sets_one [OF Inr] show ?thesis
    by (auto simp: runSimulation_def settle_cases begin_fields Inr)
qed

lemma runSimulation_success:
  assumes "get_prop data ''success'' = Inr success" and "truthy success"
  shows "get_prop data ''data'' = Inr (results (runSimulation s (Resolves data))) \<and>
         error (runSimulation s (Resolves data)) = JNull"
  using assms
  by (cases data)
     (auto simp: runSimulation_def settle_cases runSimulation_begin_def split: option.splits)

lemma runSimulation_failure:
  assumes "get_prop data ''success'' = Inr success" and "\<not> truthy success"
  shows "results (runSimulation s (Resolves data)) = JNull \<and>
         error (runSimulation s (Resolves data)) \<noteq> JNull"
  using assms
  by (cases data)
     (auto simp: runSimulation_def settle_cases runSimulation_begin_def
        dest: truthy_not_null split: option.splits)

lemma runSimulation_throw:
  assumes "try_block (runSimulation_begin s) out = Inl err"
  shows "results (runSimulation s out) = JNull \<and>
         error (runSimulation s out) = JStr (''Failed to connect to API: '' @ message err)"
  using assms by (simp add: runSimulation_def settle_cases begin_fields)

text \<open>What throws inside \<^verbatim>\<open>try\<close>: a rejected promise, or reading \<^verbatim>\<open>success\<close> off a
  body that parsed to \<^verbatim>\<open>null\<close>.\<close>

lemma get_prop_total:
  "d \<noteq> JNull \<Longrightarrow> d \<noteq> JUndefined \<Longrightarrow> \<exists>v. get_prop d k = Inr v"
  by (cases d) (auto split: option.splits)

lemma try_block_throws_iff:
  "try_block s out = Inl err \<longleftrightarrow>
     out = FetchRejects err \<or> out = JsonRejects err \<or>
     (\<exists>d. out = Resolves d \<and> (d = JNull \<or> d = JUndefined) \<and> get_prop d ''success'' = Inl err)"
proof (cases out)
  case (Resolves d)
  show ?thesis
  proof (cases "d = JNull \<or> d = JUndefined")
    case True
    then show ?thesis using Resolves by auto
  next
    case False
    then obtain a b c where "get_prop d ''success'' = Inr a" "get_prop d ''data'' = Inr b"
      "get_prop d ''error'' = Inr c"
      using get_prop_total by (metis (full_types))
    then show ?thesis using Resolves False by auto
  qed
qed auto

text \<open>
  In the state machine an execution is the click and the settling of the promise; while
  the request is pending, only that settling changes the state.
\<close>

lemma click_then_settle:
  "\<not> loading s \<Longrightarrow> rs_run s [RunClick, Settled out] = runSimulation s out"
  by (simp add: runSimulation_def runSimulation_begin_def)

lemma pending_blocks_controls:
  "loading s \<Longrightarrow> rs_step s (QubitsChange v) = s \<and> rs_step s (ScenariosChange v) = s \<and>
     rs_step s RunClick = s"
  by simp

lemma settle_keeps_sliders:
  "qubits (runSimulation_settle s out) = qubits s \<and>
   numScenarios (runSimulation_settle s out) = numScenarios s"
  by (cases "try_block s out") (auto simp: settle_cases dest: try_block_keeps)

lemma truthy_defined: "truthy v \<Longrightarrow> v \<noteq> JNull \<and> v \<noteq> JUndefined"
  by (cases v) simp_all

lemma runSimulation_failure_value:
  assumes "get_prop data ''success'' = Inr success" and "\<not> truthy success"
    and "get_prop data ''error'' = Inr e"
  shows "results (runSimulation s (Resolves data)) = JNull \<and>
         error (runSimulation s (Resolves data)) = (if truthy e then e else JStr ''Simulation failed'') \<and>
         truthy (error (runSimulation s (Resolves data)))"
  using assms
  by (auto simp: runSimulation_def settle_cases runSimulation_begin_def)

lemma runSimulation_rejects:
  assumes "out = FetchRejects err \<or> out = JsonRejects err"
  shows "results (runSimulation s out) = JNull \<and>
         error (runSimulation s out) = JStr (''Failed to connect to API: '' @ message err)"
  using assms by (auto simp: runSimulation_def settle_cases begin_fields)

lemma runSimulation_type_error:
  assumes "get_prop data ''success'' = Inl err"
  shows "results (runSimulation s (Resolves data)) = JNull \<and>
         error (runSimulation s (Resolves data)) = JStr (''Failed to connect to API: '' @ message err)"
  using assms by (auto simp: runSimulation_def settle_cases begin_fields)

lemma runSimulation_body_shapes:
  "(map_of kvs ''success'' = Some (JBool True) \<and> map_of kvs ''data'' = Some d \<longrightarrow>
      results (runSimulation s (Resolves (JObj kvs))) = d \<and>
      error (runSimulation s (Resolves (JObj kvs))) = JNull) \<and>
   (map_of kvs ''success'' = Some (JBool False) \<and> map_of kvs ''error'' = Some (JStr msg) \<and>
      msg \<noteq> [] \<longrightarrow>
      results (runSimulation s (Resolves (JObj kvs))) = JNull \<and>
      error (runSimulation s (Resolves (JObj kvs))) = JStr msg) \<and>
   (map_of kvs ''success'' = Some (JBool False) \<and> map_of kvs ''error'' = None \<longrightarrow>
      results (runSimulation s (Resolves (JObj kvs))) = JNull \<and>
      error (runSimulation s (Resolves (JObj kvs))) = JStr ''Simulation failed'')"
  by (auto simp: runSimulation_def settle_cases runSimulation_begin_def)

text \<open>
  C9. After an execution of \<^verbatim>\<open>runSimulation\<close> from any state and with any outcome of
  the request, \<open>loading\<close> is false and at most one of \<open>results\<close> and \<open>error\<close>
  is not \<^verbatim>\<open>null\<close>. When the body reports success, \<open>results\<close> is its \<^verbatim>\<open>data\<close>
  and \<open>error\<close> stays \<^verbatim>\<open>null\<close>. When the body reports failure, \<open>results\<close> stays
  \<^verbatim>\<open>null\<close> and \<open>error\<close> is the body's \<^verbatim>\<open>error\<close> if that is truthy and the text
  \<^verbatim>\<open>Simulation failed\<close> otherwise, in both cases a truthy value. When \<^verbatim>\<open>fetch\<close> or
  \<^verbatim>\<open>response.json()\<close> rejects, or reading \<^verbatim>\<open>success\<close> throws, \<open>results\<close> stays
  \<^verbatim>\<open>null\<close> and \<open>error\<close> is the connection message with the exception's text. The
  last three parts say the same of a body given as an object with its properties.
\<close>

theorem runSimulation_results_error:
  "loading (runSimulation s out) = False \<and>
   (results (runSimulation s out) = JNull \<or> error (runSimulation s out) = JNull) \<and>
   (\<forall>data success.
      out = Resolves data \<and> get_prop data ''success'' = Inr success \<and> truthy success \<longrightarrow>
      get_prop data ''data'' = Inr (results (runSimulation s out)) \<and>
      error (runSimulation s out) = JNull) \<and>
   (\<forall>data success.
      out = Resolves data \<and> get_prop data ''success'' = Inr success \<and> \<not> truthy success \<longrightarrow>
      results (runSimulation s out) = JNull \<and> error (runSimulation s out) \<noteq> JNull) \<and>
   (\<forall>data success e.
      out = Resolves data \<and> get_prop data ''success'' = Inr success \<and> \<not> truthy success \<and>
      get_prop data ''error'' = Inr e \<longrightarrow>
      results (runSimulation s out) = JNull \<and>
      error (runSimulation s out) = (if truthy e then e else JStr ''Simulation failed'') \<and>
      truthy (error (runSimulation s out)) \<and>
      error (runSimulation s out) \<noteq> JUndefined) \<and>
   (\<forall>err. out = FetchRejects err \<or> out = JsonRejects err \<longrightarrow>
      results (runSimulation s out) = JNull \<and>
      error (runSimulation s out) = JStr (''Failed to connect to API: '' @ message err)) \<and>
   (\<forall>data err. out = Resolves data \<and> get_prop data ''success'' = Inl err \<longrightarrow>
      results (runSimulation s out) = JNull \<and>
      error (runSimulation s out) = JStr (''Failed to connect to API: '' @ message err)) \<and>
   (\<forall>err. try_block (runSimulation_begin s) out = Inl err \<longrightarrow>
      results (runSimulation s out) = JNull \<and>
      error (runSimulation s out) = JStr (''Failed to connect to API: '' @ message err)) \<and>
   (\<forall>kvs d.
      out = Resolves (JObj kvs) \<and> map_of kvs ''success'' = Some (JBool True) \<and>
      map_of kvs ''data'' = Some d \<longrightarrow>
      results (runSimulation s out) = d \<and> error (runSimulation s out) = JNull) \<and>
   (\<forall>kvs msg.
      out = Resolves (JObj kvs) \<and> map_of kvs ''success'' = Some (JBool False) \<and>
      map_of kvs ''error'' = Some (JStr msg) \<and> msg \<noteq> [] \<longrightarrow>
      results (runSimulation s out) = JNull \<and> error (runSimulation s out) = JStr msg) \<and>
   (\<forall>kvs.
      out = Resolves (JObj kvs) \<and> map_of kvs ''success'' = Some (JBool False) \<and>
      map_of kvs ''error'' = None \<longrightarrow>
      results (runSimulation s out) = JNull \<and>
      error (runSimulation s out) = JStr ''Simulation failed'')"
proof -
  have a: "\<forall>data success e.
      out = Resolves data \<and> get_prop data ''success'' = Inr success \<and> \<not> truthy success \<and>
      get_prop data ''error'' = Inr e \<longrightarrow>
      results (runSimulation s out) = JNull \<and>
      error (runSimulation s out) = (if truthy e then e else JStr ''Simulation failed'') \<and>
      truthy (error (runSimulation s out)) \<and>
      error (runSimulation s out) \<noteq> JUndefined"
    using runSimulation_failure_value [of _ _ _ s] truthy_defined by blast
  have b: "\<forall>err. out = FetchRejects err \<or> out = JsonRejects err \<longrightarrow>
      results (runSimulation s out) = JNull \<and>
      error (runSimulation s out) = JStr (''Failed to connect to API: '' @ message err)"
    using runSimulation_rejects [of out _ s] by blast
  have c: "\<forall>data err. out = Resolves data \<and> get_prop data ''success'' = Inl err \<longrightarrow>
      results (runSimulation s out) = JNull \<and>
      error (runSimulation s out) = JStr (''Failed to connect to API: '' @ message err)"
    using runSimulation_type_error [of _ _ s] by blast
  have d: "\<forall>data success.
      out = Resolves data \<and> get_prop data ''success'' = Inr success \<and> truthy success \<longrightarrow>
      get_prop data ''data'' = Inr (results (runSimulation s out)) \<and>
      error (runSimulation s out) = JNull"
    using runSimulation_success [of _ _ s] by blast
  have e: "\<forall>data success.
      out = Resolves data \<and> get_prop data ''success'' = Inr success \<and> \<not> truthy success \<longrightarrow>
      results (runSimulation s out) = JNull \<and> error (runSimulation s out) \<noteq> JNull"
    using runSimulation_failure [of _ _ s] by blast
  have f: "\<forall>err. try_block (runSimulation_begin s) out = Inl err \<longrightarrow>
      results (runSimulation s out) = JNull \<and>
      error (runSimulation s out) = JStr (''Failed to connect to API: '' @ message err)"
    using runSimulation_throw [of s out] by blast
  have g: "\<forall>kvs d.
      out = Resolves (JObj kvs) \<and> map_of kvs ''success'' = Some (JBool True) \<and>
      map_of kvs ''data'' = Some d \<longrightarrow>
      results (runSimulation s out) = d \<and> error (runSimulation s out) = JNull"
    using runSimulation_body_shapes [of _ _ s] by blast
  have h: "\<forall>kvs msg.
      out = Resolves (JObj kvs) \<and> map_of kvs ''success'' = Some (JBool False) \<and>
      map_of kvs ''error'' = Some (JStr msg) \<and> msg \<noteq> [] \<longrightarrow>
      results (runSimulation s out) = JNull \<and> error (runSimulation s out) = JStr msg"
    using runSimulation_body_shapes [of _ _ s] by blast
  have i: "\<forall>kvs.
      out = Resolves (JObj kvs) \<and> map_of kvs ''success'' = Some (JBool False) \<and>
      map_of kvs ''error'' = None \<longrightarrow>
      results (runSimulation s out) = JNull \<and>
      error (runSimulation s out) = JStr ''Simulation failed''"
    using runSimulation_body_shapes [of _ _ s] by blast
  from runSimulation_loading [of s out] runSimulation_at_most_one [of s out] a b c d e f g h i
  show ?thesis by (intro conjI)
qed

text \<open>
  The paths at concrete inputs, each from a state left by an earlier run: a successful
  body, a failing body with and without an \<^verbatim>\<open>error\<close> text, a rejected fetch and a body
  that is not JSON.
\<close>

theorem runSimulation_results_error_witness:
  "runSimulation after_error
      (Resolves (JObj [(''success'', JBool True), (''data'', JObj [(''num_scenarios'', JNum 5)])])) =
     \<lparr>loading = False, qubits = Num 10, numScenarios = Num 5,
       results = JObj [(''num_scenarios'', JNum 5)], error = JNull\<rparr> \<and>
   runSimulation after_results
      (Resolves (JObj [(''success'', JBool False), (''error'', JStr ''num_qubits must be positive'')])) =
     \<lparr>loading = False, qubits = Num 10, numScenarios = Num 5,
       results = JNull, error = JStr ''num_qubits must be positive''\<rparr> \<and>
   runSimulation after_results (Resolves (JObj [(''success'', JBool False)])) =
     \<lparr>loading = False, qubits = Num 10, numScenarios = Num 5,
       results = JNull, error = JStr ''Simulation failed''\<rparr> \<and>
   runSimulation after_results (FetchRejects (Error ''Failed to fetch'')) =
     \<lparr>loading = False, qubits = Num 10, numScenarios = Num 5,
       results = JNull, error = JStr ''Failed to connect to API: Failed to fetch''\<rparr> \<and>
   runSimulation after_results (JsonRejects (Error ''Unexpected token'')) =
     \<lparr>loading = False, qubits = Num 10, numScenarios = Num 5,
       results = JNull, error = JStr ''Failed to connect to API: Unexpected token''\<rparr>"
proof -
  have keep: "\<And>out. qubits (runSimulation after_results out) = Num 10 \<and>
                     numScenarios (runSimulation after_results out) = Num 5"
    "\<And>out. qubits (runSimulation after_error out) = Num 10 \<and>
            numScenarios (runSimulation after_error out) = Num 5"
    using settle_keeps_sliders
    by (simp_all add: runSimulation_def begin_fields after_results_def after_error_def)
  have eqI: "\<And>t l q n r e. loading t = l \<Longrightarrow> qubits t = q \<Longrightarrow> numScenarios t = n \<Longrightarrow>
      results t = r \<Longrightarrow> error t = e \<Longrightarrow>
      t = \<lparr>loading = l, qubits = q, numScenarios = n, results = r, error = e\<rparr>"
    by auto
  show ?thesis
    using
      runSimulation_results_error [of after_error
        "Resolves (JObj [(''success'', JBool True), (''data'', JObj [(''num_scenarios'', JNum 5)])])"]
      runSimulation_results_error [of after_results
        "Resolves (JObj [(''success'', JBool False), (''error'', JStr ''num_qubits must be positive'')])"]
      runSimulation_results_error [of after_results "Resolves (JObj [(''success'', JBool False)])"]
      runSimulation_results_error [of after_results "FetchRejects (Error ''Failed to fetch'')"]
      runSimulation_results_error [of after_results "JsonRejects (Error ''Unexpected token'')"]
      keep
    by (intro conjI eqI) simp_all
qed


section \<open>The slider bounds of the RandomScenarios component\<close>

lemma range_value_Number:
  "range_value sl v \<Longrightarrow> in_range (min_attr sl) (max_attr sl) (Number v)"
  by (auto simp: range_value_def in_range_def Number_def split: option.splits)

lemma rs_step_in_bounds:
  "sliders_in_bounds s \<Longrightarrow> from_sliders ev \<Longrightarrow> sliders_in_bounds (rs_step s ev)"
  using range_value_Number [of qubits_slider] range_value_Number [of scenarios_slider]
  by (cases ev)
     (auto simp: sliders_in_bounds_def begin_fields settle_keeps_sliders
        qubits_slider_def scenarios_slider_def)

lemma rs_run_in_bounds:
  "sliders_in_bounds s \<Longrightarrow> list_all from_sliders evs \<Longrightarrow> sliders_in_bounds (rs_run s evs)"
  by (induction evs arbitrary: s) (simp_all add: rs_step_in_bounds)

lemma rs_requests_in_bounds:
  "sliders_in_bounds s \<Longrightarrow> list_all from_sliders evs \<Longrightarrow>
     list_all request_in_bounds (rs_requests s evs)"
proof (induction evs arbitrary: s)
  case Nil
  then show ?case by simp
next
  case (Cons ev evs)
  then have rest: "list_all from_sliders evs" and ok: "from_sliders ev"
    by simp_all
  show ?case
  proof (cases ev)
    case RunClick
    then show ?thesis
      using Cons.IH [OF _ rest] Cons.prems(1)
      by (auto simp: begin_fields request_in_bounds_def request_of_def sliders_in_bounds_def)
  next
    case (QubitsChange v)
    then show ?thesis
      using Cons.IH [OF rs_step_in_bounds [OF Cons.prems(1) ok] rest] by simp
  next
    case (ScenariosChange v)
    then show ?thesis
      using Cons.IH [OF rs_step_in_bounds [OF Cons.prems(1) ok] rest] by simp
  next
    case (Settled out)
    then show ?thesis
      using Cons.IH [OF rs_step_in_bounds [OF Cons.prems(1) ok] rest] by simp
  qed
qed

lemma init_in_bounds: "sliders_in_bounds rs_init"
  by (simp add: sliders_in_bounds_def rs_init_def in_range_def)

text \<open>
  C8. Start from the component's initial state and let any sequence of events happen in
  which each slider hands its handler a value between its own \<^verbatim>\<open>min\<close> and
  \<^verbatim>\<open>max\<close>. Then \<open>qubits\<close> is an integer between 1 and 20, \<open>numScenarios\<close> is an
  integer between 1 and 10, and every request issued on the way carries
  \<^verbatim>\<open>num_qubits\<close> in 1..20 and \<^verbatim>\<open>num_scenarios\<close> in 1..10. A prefix of such a
  sequence is such a sequence, so the bounds hold in every state passed through.
\<close>

theorem slider_bounds:
  assumes "list_all from_sliders evs"
  shows "in_range 1 20 (qubits (rs_run rs_init evs)) \<and>
         in_range 1 10 (numScenarios (rs_run rs_init evs)) \<and>
         list_all request_in_bounds (rs_requests rs_init evs)"
  using rs_run_in_bounds [OF init_in_bounds assms] rs_requests_in_bounds [OF init_in_bounds assms]
  by (simp add: sliders_in_bounds_def)

theorem slider_bounds_witness:
  "list_all from_sliders
     [QubitsChange ''20'', ScenariosChange ''1'', RunClick, QubitsChange ''3'',
      Settled (FetchRejects (Error ''Failed to fetch'')), QubitsChange ''7'', RunClick] \<and>
   rs_requests rs_init
     [QubitsChange ''20'', ScenariosChange ''1'', RunClick, QubitsChange ''3'',
      Settled (FetchRejects (Error ''Failed to fetch'')), QubitsChange ''7'', RunClick] =
     [\<lparr>num_qubits = Num 20, num_scenarios = Num 1\<rparr>,
      \<lparr>num_qubits = Num 7, num_scenarios = Num 1\<rparr>] \<and>
   list_all request_in_bounds
     [\<lparr>num_qubits = Num 20, num_scenarios = Num 1\<rparr>,
      \<lparr>num_qubits = Num 7, num_scenarios = Num 1\<rparr>]"
proof -
  have ok: "list_all from_sliders
     [QubitsChange ''20'', ScenariosChange ''1'', RunClick, QubitsChange ''3'',
      Settled (FetchRejects (Error ''Failed to fetch'')), QubitsChange ''7'', RunClick]"
    by (simp add: range_value_def qubits_slider_def scenarios_slider_def digit_val_def digits_def)
  have req: "rs_requests rs_init
     [QubitsChange ''20'', ScenariosChange ''1'', RunClick, QubitsChange ''3'',
      Settled (FetchRejects (Error ''Failed to fetch'')), QubitsChange ''7'', RunClick] =
     [\<lparr>num_qubits = Num 20, num_scenarios = Num 1\<rparr>,
      \<lparr>num_qubits = Num 7, num_scenarios = Num 1\<rparr>]"
    by (simp add: rs_init_def request_of_def runSimulation_begin_def runSimulation_settle_def
        Number_def digit_val_def digits_def)
  from slider_bounds [OF ok] ok req show ?thesis by simp
qed

section \<open>The App component under its sliders\<close>

text \<open>
  \<^verbatim>\<open>App\<close> stores the slider's string, not a number. The comparison with 40 is still
  numeric: at \<^verbatim>\<open>"5"\<close> the line is green, which a comparison of strings would not give.
\<close>

lemma js_gt_number: "js_gt (PNum n) k = (k < n)"
  by (simp add: js_gt_def)

lemma js_gt_in_range:
  "in_range lo hi (to_number x) \<Longrightarrow>
     \<exists>n. to_number x = Num n \<and> lo \<le> n \<and> n \<le> hi \<and> js_gt x k = (k < n)"
  by (auto simp: in_range_def js_gt_def split: jsnumber.splits)

lemma colour_examples:
  "linkColor (app_init\<lparr>intercept := PStr ''5''\<rparr>) = ''stroke-green-400''"
  "linkColor (app_init\<lparr>intercept := PStr ''40''\<rparr>) = ''stroke-green-400''"
  "linkColor (app_init\<lparr>intercept := PStr ''41''\<rparr>) = ''stroke-red-500''"
  "linkColor (app_init\<lparr>intercept := PStr ''100''\<rparr>) = ''stroke-red-500''"
  "linkColor app_init = ''stroke-red-500''"
  "eveColor app_init = ''bg-red-500''"
  "eveColor (app_init\<lparr>intercept := PStr ''5''\<rparr>) = ''bg-yellow-400''"
  by (simp_all add: linkColor_def eveColor_def js_gt_def Number_def digit_val_def digits_def
      app_init_def)

lemma app_step_in_bounds:
  "app_in_bounds s \<Longrightarrow> app_from_sliders ev \<Longrightarrow> app_in_bounds (app_step s ev)"
  using range_value_Number [of qubits_slider] range_value_Number [of intercept_slider]
  by (cases ev) (auto simp: app_in_bounds_def qubits_slider_def intercept_slider_def)

lemma app_run_in_bounds:
  "app_in_bounds s \<Longrightarrow> list_all app_from_sliders evs \<Longrightarrow> app_in_bounds (app_run s evs)"
  by (induction evs arbitrary: s) (simp_all add: app_step_in_bounds)

lemma app_init_in_bounds: "app_in_bounds app_init"
  by (simp add: app_in_bounds_def app_init_def in_range_def)

text \<open>In every state the sliders can lead to, \<open>intercept\<close> reads as an integer between
  0 and 100, and the line and the badge are red exactly when it exceeds 40.\<close>

lemma app_reachable_colours:
  assumes "list_all app_from_sliders evs"
  shows "\<exists>n. to_number (intercept (app_run app_init evs)) = Num n \<and> 0 \<le> n \<and> n \<le> 100 \<and>
           has_class ''stroke-red-500'' (link_className (app_run app_init evs)) = (40 < n) \<and>
           has_class ''bg-red-500'' (eve_className (app_run app_init evs)) = (40 < n)"
  using app_run_in_bounds [OF app_init_in_bounds assms]
    js_gt_in_range [of 0 100 "intercept (app_run app_init evs)" 40]
  by (auto simp: app_in_bounds_def has_class_link_red has_class_eve_red)

text \<open>The qubits slider of \<^verbatim>\<open>App\<close>: the state holds 10 or the slider's string, which
  reads as an integer between 1 and 20. \<^verbatim>\<open>App\<close> issues no request.\<close>

lemma app_qubits_in_bounds:
  "list_all app_from_sliders evs \<Longrightarrow>
     in_range 1 20 (to_number (app_qubits (app_run app_init evs)))"
  using app_run_in_bounds [OF app_init_in_bounds] by (simp add: app_in_bounds_def)

section \<open>Sifting and classification in the modelled core\<close>

lemma generate_length: "generate n rs = (qs, rs') \<Longrightarrow> length qs = n"
  by (induction n arbitrary: rs qs rs') (auto split: prod.splits)

lemma transmit_length: "transmit qs chain rs = (qs', rs') \<Longrightarrow> length qs' = length qs"
  by (induction qs arbitrary: rs qs' rs') (auto split: prod.splits)

lemma receive_length: "receive qs rs = (ms, rs') \<Longrightarrow> length ms = length qs"
  by (induction qs arbitrary: rs ms rs') (auto split: prod.splits)

lemma exchange_lengths:
  assumes "exchange n chain rs = (sent, outcomes)"
  shows "sent = fst (generate n rs) \<and> length sent = n \<and> length outcomes = n"
proof -
  obtain rs1 where g: "generate n rs = (sent, rs1)"
    using assms by (auto simp: exchange_def split: prod.splits)
  obtain arrived rs2 where t: "transmit sent chain rs1 = (arrived, rs2)"
    by (cases "transmit sent chain rs1")
  obtain rs3 where r: "receive arrived rs2 = (outcomes, rs3)"
    using assms g t by (auto simp: exchange_def split: prod.splits)
  from generate_length [OF g] transmit_length [OF t] receive_length [OF r] g
  show ?thesis by simp
qed

lemma upt_shift: "[0..<Suc n] = 0 # map Suc [0..<n]"
  by (simp add: upt_conv_Cons map_Suc_upt del: upt_Suc)

lemma sift_by_position:
  "length qs = length ms \<Longrightarrow>
     sift qs ms = (map (\<lambda>i. qbit (qs ! i)) (matching_positions qs ms),
                   map (\<lambda>i. mbit (ms ! i)) (matching_positions qs ms))"
proof (induction qs ms rule: list_induct2)
  case Nil
  then show ?case by (simp add: matching_positions_def)
next
  case (Cons q qs m ms)
  have "matching_positions (q # qs) (m # ms) =
      (if basisUsed m = basis q then [0] else []) @ map Suc (matching_positions qs ms)"
    unfolding matching_positions_def length_Cons upt_shift
    by (simp add: filter_map comp_def)
  then show ?case using Cons by (simp add: comp_def)
qed

lemma matching_positions_length: "length (matching_positions sent outcomes) \<le> length sent"
  unfolding matching_positions_def by (metis length_filter_le length_upt diff_zero)

lemma matching_positions_increasing: "sorted_wrt (<) (matching_positions sent outcomes)"
  unfolding matching_positions_def by (simp add: sorted_wrt_filter)

lemma demo_run:
  "runSingleLink 6 demo_chain demo_source =
     Inr \<lparr>senderKey = [False, True, False], receiverKey = [False, False, False],
          qberPercent = 100 / 3, secure = False, indeterminate = False,
          attackersInvolved = [''Eve'', ''Mallory'']\<rparr>"
  by code_simp

lemma demo_chain_valid: "list_all valid_probability demo_chain"
  by (simp add: demo_chain_def valid_probability_def)

text \<open>
  C3. A link run with \<open>N > 0\<close> qubits and any attacker chain (with probabilities in
  \<open>[0, 1]\<close>) returns a result. Its sender key and receiver key are the sender's bits
  and the receiver's measured bits at the positions, in increasing order, where the
  receiver's basis equals the basis of the qubit as the sender prepared it, before any
  attacker touched it. Both keys have the same length, which is at most \<open>N\<close>.
\<close>

theorem sifted_keys_by_position:
  assumes "0 < N" and "list_all valid_probability chain"
  shows "\<exists>res sent outcomes.
           runSingleLink N chain rs = Inr res \<and>
           exchange (nat N) chain rs = (sent, outcomes) \<and>
           sent = fst (generate (nat N) rs) \<and>
           length sent = nat N \<and> length outcomes = nat N \<and>
           senderKey res = map (\<lambda>i. qbit (sent ! i)) (matching_positions sent outcomes) \<and>
           receiverKey res = map (\<lambda>i. mbit (outcomes ! i)) (matching_positions sent outcomes) \<and>
           sorted_wrt (<) (matching_positions sent outcomes) \<and>
           length (senderKey res) = length (receiverKey res) \<and>
           length (senderKey res) \<le> nat N"
proof -
  obtain sent outcomes where ex: "exchange (nat N) chain rs = (sent, outcomes)"
    by (cases "exchange (nat N) chain rs")
  from exchange_lengths [OF ex]
  have len: "sent = fst (generate (nat N) rs)" "length sent = nat N" "length outcomes = nat N"
    by blast+
  from len(2,3) have sift: "sift sent outcomes =
      (map (\<lambda>i. qbit (sent ! i)) (matching_positions sent outcomes),
       map (\<lambda>i. mbit (outcomes ! i)) (matching_positions sent outcomes))"
    by (simp add: sift_by_position)
  let ?sk = "map (\<lambda>i. qbit (sent ! i)) (matching_positions sent outcomes)"
  let ?rk = "map (\<lambda>i. mbit (outcomes ! i)) (matching_positions sent outcomes)"
  let ?res = "\<lparr>senderKey = ?sk, receiverKey = ?rk, qberPercent = qber ?sk ?rk,
                secure = (qber ?sk ?rk < SECURITY_THRESHOLD),
                indeterminate = (length ?sk = 0),
                attackersInvolved = map name chain\<rparr>"
  have run: "runSingleLink N chain rs = Inr ?res"
    using assms by (simp add: runSingleLink_def ex sift)
  have bound: "length ?sk \<le> nat N"
    using matching_positions_length [of sent outcomes] len(2) by simp
  from run ex len(2,3) bound matching_positions_increasing [of sent outcomes]
  show ?thesis by (simp add: len(1) [symmetric])
qed

theorem sifted_keys_by_position_witness:
  "(0::int) < 6 \<and> list_all valid_probability demo_chain \<and>
   (\<exists>res. runSingleLink 6 demo_chain demo_source = Inr res \<and>
      senderKey res = [False, True, False] \<and> receiverKey res = [False, False, False] \<and>
      length (senderKey res) = length (receiverKey res) \<and> length (senderKey res) \<le> nat 6)"
  using sifted_keys_by_position [OF _ demo_chain_valid, of 6 demo_source] demo_run demo_chain_valid
  by auto

text \<open>
  C1. In every result of a link run, \<open>secure\<close> is true exactly when \<open>qberPercent\<close>
  is below the threshold, and the threshold is 11; so a result with \<open>qberPercent\<close> equal
  to 11 is not secure.
\<close>

theorem secure_iff_below_threshold:
  assumes "runSingleLink N chain rs = Inr res"
  shows "secure res = (qberPercent res < SECURITY_THRESHOLD) \<and> SECURITY_THRESHOLD = 11 \<and>
         secure res = (qberPercent res < 11)"
  using assms
  by (auto simp: runSingleLink_def SECURITY_THRESHOLD_def split: if_splits prod.splits)

theorem secure_iff_below_threshold_witness:
  "runSingleLink 6 demo_chain demo_source =
     Inr \<lparr>senderKey = [False, True, False], receiverKey = [False, False, False],
          qberPercent = 100 / 3, secure = False, indeterminate = False,
          attackersInvolved = [''Eve'', ''Mallory'']\<rparr> \<and>
   \<not> ((100 / 3 :: rat) < 11)"
  using secure_iff_below_threshold [OF demo_run] demo_run by simp

text \<open>The boundary: 11 errors in a sifted key of 100 bits are a rate of exactly 11
  percent, which is not below the threshold.\<close>

lemma qber_at_threshold:
  "qber (replicate 100 False) (replicate 11 True @ replicate 89 False) = 11 \<and>
   \<not> (qber (replicate 100 False) (replicate 11 True @ replicate 89 False) < SECURITY_THRESHOLD)"
  by code_simp

text \<open>
  The run whose sifted key is empty. The model follows steps 5 and 6 of section 4.2 as
  they are written: the rate is 0, the flag is set, and the classification of step 6
  applies to the rate 0. Whether such a link should count as secure is listed among the
  open questions of section 9.
\<close>

lemma empty_sifted_key:
  assumes "runSingleLink N chain rs = Inr res" and "senderKey res = []"
  shows "qberPercent res = 0 \<and> indeterminate res \<and> secure res"
  using assms
  by (auto simp: runSingleLink_def qber_def SECURITY_THRESHOLD_def split: if_splits prod.splits)

lemma empty_sifted_run:
  "runSingleLink 1 [] (demo_source\<lparr>cursor := 1\<rparr>) =
     Inr \<lparr>senderKey = [], receiverKey = [], qberPercent = 0, secure = True,
          indeterminate = True, attackersInvolved = []\<rparr>"
  by code_simp

section \<open>Measuring a qubit in the modelled core\<close>

lemma measure_match:
  "bs = basis q \<Longrightarrow> measure_qubit q bs rs = (\<lparr>mbit = qbit q, basisUsed = bs\<rparr>, rs)"
  by (simp add: measure_qubit_def)

lemma measure_mismatch:
  "bs \<noteq> basis q \<Longrightarrow>
     measure_qubit q bs rs =
       (\<lparr>mbit = (1 / 2 \<le> draws rs (cursor rs)), basisUsed = bs\<rparr>, rs\<lparr>cursor := cursor rs + 1\<rparr>)"
  by (simp add: measure_qubit_def draw_bit_def next_uniform_def)

lemma grid_half: "0 < m \<Longrightarrow> (1 / 2 \<le> grid m k) = (m \<le> k)"
proof -
  assume m: "0 < m"
  have "(1 / 2 \<le> grid m k) = (rat_of_nat (2 * m) * (1 / 2) \<le> rat_of_nat k)"
    unfolding grid_def using m by (simp add: pos_le_divide_eq mult.commute)
  also have "rat_of_nat (2 * m) * (1 / 2) = rat_of_nat m" by simp
  finally show ?thesis by simp
qed

lemma grid_half_simp: "0 < m \<Longrightarrow> (1 \<le> grid m k * 2) = (m \<le> k)"
  using grid_half [of m k] by simp

lemma upper_half: "{k::nat. k < 2 * m \<and> m \<le> k} = {m..<2 * m}"
  by auto

lemma lower_half: "{k::nat. k < 2 * m \<and> \<not> m \<le> k} = {..<m}"
  by auto

lemma card_half: "card {k::nat. k < 2 * m \<and> (m \<le> k) = a} = m"
  by (cases a) (simp_all add: upper_half lower_half)

lemma card_pairs:
  "card {(j::nat, k::nat). j < 2 * m \<and> k < 2 * m \<and> (m \<le> j) = a \<and> (m \<le> k) = b} = m * m"
proof -
  have "{(j, k). j < 2 * m \<and> k < 2 * m \<and> (m \<le> j) = a \<and> (m \<le> k) = b} =
        {j. j < 2 * m \<and> (m \<le> j) = a} \<times> {k. k < 2 * m \<and> (m \<le> k) = b}"
    by auto
  then show ?thesis by (simp add: card_cartesian_product card_half)
qed

lemma measure_mismatch_grid:
  assumes "bs \<noteq> basis q" and "0 < m"
  shows "mbit (fst (measure_qubit q bs (with_draw rs (cursor rs) (grid m k)))) = (m \<le> k)"
  using assms by (simp add: measure_mismatch with_draw_def grid_half_simp)

lemma measure_twice_grid:
  assumes "bs \<noteq> basis q" and "bs' \<noteq> basis q'" and "0 < m"
  shows "measure_twice q bs q' bs'
           (with_draw (with_draw rs (cursor rs) (grid m j)) (cursor rs + 1) (grid m k)) =
         (m \<le> j, m \<le> k)"
  using assms by (simp add: measure_twice_def measure_mismatch with_draw_def grid_half_simp)

text \<open>
  C2. Measuring a qubit in the basis it was prepared in returns the qubit's bit and
  leaves the random source as it was. Measuring it in the other basis returns the bit
  drawn from the number under the cursor and moves the cursor on, so the next
  measurement reads another number. With that number one of \<open>2 * m\<close> equally spaced,
  equally likely values, each outcome bit comes from exactly \<open>m\<close> of them: the outcome is
  uniform over the two bits. For two mismatched measurements in a row, each pair of
  outcome bits comes from exactly \<open>m * m\<close> of the \<open>4 * m * m\<close> pairs of draws: the two
  outcomes are independent.
\<close>

theorem measure_outcome:
  "(bs = basis q \<longrightarrow> measure_qubit q bs rs = (\<lparr>mbit = qbit q, basisUsed = bs\<rparr>, rs)) \<and>
   (bs \<noteq> basis q \<longrightarrow>
      measure_qubit q bs rs =
        (\<lparr>mbit = (1 / 2 \<le> draws rs (cursor rs)), basisUsed = bs\<rparr>, rs\<lparr>cursor := cursor rs + 1\<rparr>)) \<and>
   (bs \<noteq> basis q \<and> 0 < m \<longrightarrow>
      card {k. k < 2 * m \<and>
              mbit (fst (measure_qubit q bs (with_draw rs (cursor rs) (grid m k)))) = a} = m) \<and>
   (bs \<noteq> basis q \<and> bs' \<noteq> basis q' \<and> 0 < m \<longrightarrow>
      card {(j, k). j < 2 * m \<and> k < 2 * m \<and>
              measure_twice q bs q' bs'
                (with_draw (with_draw rs (cursor rs) (grid m j)) (cursor rs + 1) (grid m k)) =
              (a, b)} = m * m)"
proof (intro conjI impI)
  assume "bs = basis q"
  then show "measure_qubit q bs rs = (\<lparr>mbit = qbit q, basisUsed = bs\<rparr>, rs)"
    by (rule measure_match)
next
  assume "bs \<noteq> basis q"
  then show "measure_qubit q bs rs =
        (\<lparr>mbit = (1 / 2 \<le> draws rs (cursor rs)), basisUsed = bs\<rparr>, rs\<lparr>cursor := cursor rs + 1\<rparr>)"
    by (rule measure_mismatch)
next
  assume h: "bs \<noteq> basis q \<and> 0 < m"
  then have eq: "\<And>k. mbit (fst (measure_qubit q bs (with_draw rs (cursor rs) (grid m k)))) = (m \<le> k)"
    by (simp add: measure_mismatch_grid)
  show "card {k. k < 2 * m \<and>
              mbit (fst (measure_qubit q bs (with_draw rs (cursor rs) (grid m k)))) = a} = m"
    unfolding eq by (rule card_half)
next
  assume h: "bs \<noteq> basis q \<and> bs' \<noteq> basis q' \<and> 0 < m"
  then have eq: "\<And>j k. measure_twice q bs q' bs'
                (with_draw (with_draw rs (cursor rs) (grid m j)) (cursor rs + 1) (grid m k)) =
              (m \<le> j, m \<le> k)"
    using measure_twice_grid by blast
  show "card {(j, k). j < 2 * m \<and> k < 2 * m \<and>
              measure_twice q bs q' bs'
                (with_draw (with_draw rs (cursor rs) (grid m j)) (cursor rs + 1) (grid m k)) =
              (a, b)} = m * m"
    unfolding eq prod.inject by (rule card_pairs)
qed


theorem measure_outcome_witness:
  "measure_qubit \<lparr>qbit = True, basis = DIAGONAL\<rparr> DIAGONAL demo_source =
     (\<lparr>mbit = True, basisUsed = DIAGONAL\<rparr>, demo_source) \<and>
   measure_qubit \<lparr>qbit = True, basis = DIAGONAL\<rparr> RECTILINEAR demo_source =
     (\<lparr>mbit = False, basisUsed = RECTILINEAR\<rparr>, demo_source\<lparr>cursor := 1\<rparr>) \<and>
   card {k. k < 2 * 2 \<and>
           mbit (fst (measure_qubit \<lparr>qbit = True, basis = DIAGONAL\<rparr> RECTILINEAR
                  (with_draw demo_source (cursor demo_source) (grid 2 k)))) = True} = 2 \<and>
   card {(j, k). j < 2 * 2 \<and> k < 2 * 2 \<and>
           measure_twice \<lparr>qbit = True, basis = DIAGONAL\<rparr> RECTILINEAR
             \<lparr>qbit = False, basis = RECTILINEAR\<rparr> DIAGONAL
             (with_draw (with_draw demo_source (cursor demo_source) (grid 2 j))
                (cursor demo_source + 1) (grid 2 k)) = (True, False)} = 2 * 2"
proof -
  have draw0: "draws demo_source 0 = 1 / 4" "cursor demo_source = 0"
    by (simp_all add: demo_source_def)
  from measure_outcome
    [where bs = DIAGONAL and q = "\<lparr>qbit = True, basis = DIAGONAL\<rparr>" and rs = demo_source]
  have match: "measure_qubit \<lparr>qbit = True, basis = DIAGONAL\<rparr> DIAGONAL demo_source =
     (\<lparr>mbit = True, basisUsed = DIAGONAL\<rparr>, demo_source)"
    by simp
  from measure_outcome
    [where bs = RECTILINEAR and q = "\<lparr>qbit = True, basis = DIAGONAL\<rparr>" and rs = demo_source
       and m = 2 and a = True and b = False
       and q' = "\<lparr>qbit = False, basis = RECTILINEAR\<rparr>" and bs' = DIAGONAL]
  have mismatch: "measure_qubit \<lparr>qbit = True, basis = DIAGONAL\<rparr> RECTILINEAR demo_source =
     (\<lparr>mbit = (1 / 2 \<le> draws demo_source (cursor demo_source)), basisUsed = RECTILINEAR\<rparr>,
      demo_source\<lparr>cursor := cursor demo_source + 1\<rparr>)"
    and one: "card {k. k < 2 * 2 \<and>
           mbit (fst (measure_qubit \<lparr>qbit = True, basis = DIAGONAL\<rparr> RECTILINEAR
                  (with_draw demo_source (cursor demo_source) (grid 2 k)))) = True} = 2"
    and two: "card {(j, k). j < 2 * 2 \<and> k < 2 * 2 \<and>
           measure_twice \<lparr>qbit = True, basis = DIAGONAL\<rparr> RECTILINEAR
             \<lparr>qbit = False, basis = RECTILINEAR\<rparr> DIAGONAL
             (with_draw (with_draw demo_source (cursor demo_source) (grid 2 j))
                (cursor demo_source + 1) (grid 2 k)) = (True, False)} = 2 * 2"
    by simp_all
  from mismatch have mismatch':
    "measure_qubit \<lparr>qbit = True, basis = DIAGONAL\<rparr> RECTILINEAR demo_source =
     (\<lparr>mbit = False, basisUsed = RECTILINEAR\<rparr>, demo_source\<lparr>cursor := 1\<rparr>)"
    by (simp add: draw0)
  from match mismatch' one two show ?thesis by (intro conjI)
qed

end
